theory Spec2Isabelle
  imports Main "HOL-Library.AList" "HOL-Library.Multiset"
begin

section \<open>Values of the request and of the document store\<close>

text \<open>
  An object id of the document store. Route parameters and query parameters are
  strings; the identifiers kept in documents and in the identity of the requester are
  object ids.
\<close>

datatype oid = ObjectId string

text \<open>
  Request bodies are parsed JSON, and documents are objects of the same shape whose
  fields may also hold object ids. A value that JavaScript calls \<open>undefined\<close> is
  \<open>None\<close> of an option type; \<open>null\<close> is a value of its own. Numbers are only
  ever tested for being zero by the handlers, so integers stand for them.
\<close>

datatype json =
    JNull
  | JBool bool
  | JNum int
  | JStr string
  | JId oid
  | JArr "json list"
  | JObj "(string \<times> json) list"

type_synonym jobj = "(string \<times> json) list"

text \<open>JavaScript truthiness, as the operator \<open>!\<close> reads a value.\<close>

fun truthy :: "json option \<Rightarrow> bool" where
  "truthy None = False"
| "truthy (Some JNull) = False"
| "truthy (Some (JBool b)) = b"
| "truthy (Some (JNum n)) = (n \<noteq> 0)"
| "truthy (Some (JStr s)) = (s \<noteq> [])"
| "truthy (Some (JId i)) = True"
| "truthy (Some (JArr xs)) = True"
| "truthy (Some (JObj kvs)) = True"

definition truthy_str :: "string option \<Rightarrow> bool" where
  "truthy_str v = (case v of None \<Rightarrow> False | Some s \<Rightarrow> s \<noteq> [])"

text \<open>
  What a handler can throw: a schema validation error with its per-path messages
  (the only error name the handlers distinguish), or any other error with its message.
\<close>

datatype exn = ValidationError "string list" | Error string

text \<open>\<open>v.length === 0\<close> for a truthy value \<open>v\<close>.\<close>

fun length_is_zero :: "json \<Rightarrow> bool" where
  "length_is_zero (JArr xs) = (xs = [])"
| "length_is_zero (JStr s) = (s = [])"
| "length_is_zero (JObj kvs) = (map_of kvs ''length'' = Some (JNum 0))"
| "length_is_zero v = False"

text \<open>Property access \<open>v.k\<close>: it throws on \<open>null\<close>, and a value that is not
  an object has none of the properties the handlers read.\<close>

fun get_prop :: "json \<Rightarrow> string \<Rightarrow> exn + json option" where
  "get_prop JNull k = Inl (Error (''Cannot read properties of null (reading '' @ k @ '')''))"
| "get_prop (JObj kvs) k = Inr (map_of kvs k)"
| "get_prop v k = Inr None"

subsection \<open>Documents\<close>

text \<open>
  The schemas are not part of the sources. A document carries the fields the handlers
  name, typed, and the remaining fields of its schema as a JSON object. Profiles
  (Doctor, Patient, Admin) and clinics keep all their fields but the identifier in that
  object, since the handlers write arbitrary submitted fields into them.
  A collection is the list of its documents in stored order, and the store answers
  every query it can read: a lost connection is outside the model.
  The follow-up date of a prescription is kept as the value its date is built from,
  the date of a prescription as a number of time units.
\<close>

record user =
  u_id :: oid
  u_role :: string
  u_doc :: jobj

record profile =
  pf_id :: oid
  pf_doc :: jobj

record appointment =
  a_id :: oid
  a_doctorId :: oid
  a_patientId :: oid
  a_prescriptionId :: "oid option"
  a_doc :: jobj

record prescription =
  p_id :: oid
  p_appointmentId :: oid
  p_doctorId :: oid
  p_patientId :: oid
  p_diagnosis :: "json option"
  p_medications :: json
  p_tests :: "json option"
  p_notes :: "json option"
  p_followUpDate :: "json option"
  p_date :: int

record store =
  users :: "user list"
  admins :: "profile list"
  doctors :: "profile list"
  patients :: "profile list"
  clinics :: "profile list"
  appointments :: "appointment list"
  prescriptions :: "prescription list"

subsection \<open>Requests and responses\<close>

record identity =
  i_user :: user
  userId :: oid
  profileId :: oid
  role :: string

record request =
  req_user :: identity
  params :: "(string \<times> string) list"
  query :: "(string \<times> string) list"
  req_body :: "jobj option"
  req_file :: "string option"

text \<open>A reference of a returned document: left as the stored identifier, or
  populated with the selected fields of the referenced document (\<open>null\<close> when there
  is none).\<close>

datatype popref = Raw oid | Populated "profile option"

record populated =
  pp_doc :: prescription
  pp_doctorId :: popref
  pp_patientId :: popref
  pp_appointmentId :: popref

datatype body =
    Msg string
  | MsgFieldErrors string "(string \<times> string option) list"
  | MsgErrors string "string list"
  | MsgError string "string option"
  | MsgSuggestions string string
  | MsgPrescription string prescription
  | MsgDoctor string profile
  | CountPrescriptions nat "populated list"
  | CountDoctors nat "(profile \<times> popref) list"
  | OnePrescription populated

record response =
  status :: nat
  body :: body

subsection \<open>Collaborators\<close>

text \<open>
  The collaborators that are not part of the sources: the environment flag that lets
  error messages through; the conversion of a string to an object id by the store's
  client (none when the string is not the text of an object id); the token service
  (it yields the user id of the token's payload, or throws); the upload service (it
  yields a URL, or throws); the identifier and the date a new document is given; and
  the schema validators run when a document is saved (the messages of the failing
  paths; none when the document is valid).
\<close>

record env =
  development :: bool
  castObjectId :: "string \<Rightarrow> oid option"
  verifyAccessToken :: "string \<Rightarrow> exn + oid"
  uploadToCloudinary :: "string \<Rightarrow> exn + string"
  newObjectId :: "store \<Rightarrow> oid"
  now :: int
  validatePrescription :: "prescription \<Rightarrow> string list"
  validateAppointment :: "appointment \<Rightarrow> string list"
  validateDoctor :: "jobj \<Rightarrow> string list"
  validateDoctorUpdate :: "jobj \<Rightarrow> string list"

text \<open>\<open>mongoose.Types.ObjectId.isValid\<close> is called with a route parameter, a
  string, and with the requester's userId, an object id; it holds of every object id
  and of the strings that convert to one.\<close>

datatype idarg = Text string | Instance oid

fun isValid :: "env \<Rightarrow> idarg \<Rightarrow> bool" where
  "isValid ev (Text v) = (castObjectId ev v \<noteq> None)"
| "isValid ev (Instance i) = True"

text \<open>A string in the place of an identifier in a query is converted by the client;
  the query throws when it cannot be.\<close>

definition cast_query :: "env \<Rightarrow> string \<Rightarrow> exn + oid" where
  "cast_query ev v =
     (case castObjectId ev v of
        None \<Rightarrow> Inl (Error (''Cast to ObjectId failed for value '' @ v))
      | Some i \<Rightarrow> Inr i)"

text \<open>The \<open>catch\<close> block shared by the controllers, with the message of its
  last branch.\<close>

definition catch_block :: "env \<Rightarrow> string \<Rightarrow> exn \<Rightarrow> response" where
  "catch_block ev failed e =
     (case e of
        ValidationError ms \<Rightarrow> \<lparr>status = 400, body = MsgErrors ''Validation error'' ms\<rparr>
      | Error m \<Rightarrow>
          \<lparr>status = 500,
           body = MsgError failed (if development ev then Some m else None)\<rparr>)"

section \<open>Prescription controller\<close>

subsection \<open>createPrescription\<close>

fun digit :: "nat \<Rightarrow> char" where
  "digit n = ''0123456789'' ! n"

fun show_nat :: "nat \<Rightarrow> string" where
  "show_nat n = (if n < 10 then [digit n] else show_nat (n div 10) @ [digit (n mod 10)])"

declare show_nat.simps [simp del]

text \<open>The test of one entry:
  \<open>!med.name || !med.dosage || !med.frequency || !med.duration\<close>.\<close>

definition missing_required :: "json \<Rightarrow> exn + bool" where
  "missing_required med =
     (case get_prop med ''name'' of
        Inl e \<Rightarrow> Inl e
      | Inr nm \<Rightarrow>
          (if \<not> truthy nm then Inr True
           else (case get_prop med ''dosage'' of
              Inl e \<Rightarrow> Inl e
            | Inr ds \<Rightarrow>
                (if \<not> truthy ds then Inr True
                 else (case get_prop med ''frequency'' of
                    Inl e \<Rightarrow> Inl e
                  | Inr fr \<Rightarrow>
                      (if \<not> truthy fr then Inr True
                       else (case get_prop med ''duration'' of
                          Inl e \<Rightarrow> Inl e
                        | Inr du \<Rightarrow> Inr (\<not> truthy du))))))))"

definition medication_message :: "nat \<Rightarrow> string" where
  "medication_message index =
     ''Medication '' @ show_nat (index + 1) @ '' is missing required fields''"

text \<open>The \<open>forEach\<close> loop over the entries, from position \<open>index\<close> on; it stops
  at the first entry whose test throws.\<close>

fun medicationErrors :: "nat \<Rightarrow> json list \<Rightarrow> exn + string list" where
  "medicationErrors index [] = Inr []"
| "medicationErrors index (med # meds) =
     (case missing_required med of
        Inl e \<Rightarrow> Inl e
      | Inr bad \<Rightarrow>
          (case medicationErrors (Suc index) meds of
             Inl e \<Rightarrow> Inl e
           | Inr errs \<Rightarrow> Inr (if bad then medication_message index # errs else errs)))"

text \<open>\<open>medications.forEach\<close> exists on arrays only.\<close>

definition forEach_medications :: "json \<Rightarrow> exn + string list" where
  "forEach_medications meds =
     (case meds of
        JArr xs \<Rightarrow> medicationErrors 0 xs
      | _ \<Rightarrow> Inl (Error ''medications.forEach is not a function''))"

text \<open>\<open>Appointment.findOne({ _id: appointmentId, doctorId: userId })\<close>\<close>

definition Appointment_findOne :: "env \<Rightarrow> store \<Rightarrow> string \<Rightarrow> oid \<Rightarrow> exn + appointment option" where
  "Appointment_findOne ev s appointmentId uid =
     (case cast_query ev appointmentId of
        Inl e \<Rightarrow> Inl e
      | Inr i \<Rightarrow> Inr (find (\<lambda>a. a_id a = i \<and> a_doctorId a = uid) (appointments s)))"

text \<open>Saving a new prescription runs the schema validators and appends the document.\<close>

definition Prescription_save :: "env \<Rightarrow> store \<Rightarrow> prescription \<Rightarrow> exn + store" where
  "Prescription_save ev s p =
     (if validatePrescription ev p \<noteq> [] then Inl (ValidationError (validatePrescription ev p))
      else Inr (s\<lparr>prescriptions := prescriptions s @ [p]\<rparr>))"

text \<open>Saving a loaded appointment runs the validators and writes the document back
  under its identifier.\<close>

definition Appointment_save :: "env \<Rightarrow> store \<Rightarrow> appointment \<Rightarrow> exn + store" where
  "Appointment_save ev s a =
     (if validateAppointment ev a \<noteq> [] then Inl (ValidationError (validateAppointment ev a))
      else Inr (s\<lparr>appointments := map (\<lambda>x. if a_id x = a_id a then a else x) (appointments s)\<rparr>))"

text \<open>The body of the \<open>try\<close> block. The store it returns is the store at the moment
  the block ends, by a response or by a throw. The new prescription takes as
  appointmentId the identifier that the submitted string converts to, the one the
  lookup has just matched.\<close>

definition createPrescription_try :: "env \<Rightarrow> store \<Rightarrow> request \<Rightarrow> store \<times> (exn + response)" where
  "createPrescription_try ev s req =
     (let uid = userId (req_user req);
          appointmentId = map_of (params req) ''appointmentId''
      in case req_body req of
           None \<Rightarrow> (s, Inl (Error ''Cannot destructure property of req.body as it is undefined.''))
         | Some b \<Rightarrow>
     (let diagnosis = map_of b ''diagnosis'';
          medications = map_of b ''medications'';
          tests = map_of b ''tests'';
          notes = map_of b ''notes'';
          followUpDate = map_of b ''followUpDate'';
          no_medications = (\<not> truthy medications \<or> length_is_zero (the medications))
      in if \<not> truthy_str appointmentId \<or> no_medications then
           (s, Inr \<lparr>status = 400,
                    body = MsgFieldErrors ''Appointment ID and medications are required''
                      [(''appointmentId'',
                          if \<not> truthy_str appointmentId then Some ''Appointment ID is required'' else None),
                       (''medications'',
                          if no_medications then Some ''At least one medication is required'' else None)]\<rparr>)
         else
           (case Appointment_findOne ev s (the appointmentId) uid of
              Inl e \<Rightarrow> (s, Inl e)
            | Inr None \<Rightarrow>
                (s, Inr \<lparr>status = 404, body = Msg ''Appointment not found or not authorized''\<rparr>)
            | Inr (Some appt) \<Rightarrow>
                (case forEach_medications (the medications) of
                   Inl e \<Rightarrow> (s, Inl e)
                 | Inr medicationErrs \<Rightarrow>
                     if length medicationErrs > 0 then
                       (s, Inr \<lparr>status = 400,
                                body = MsgErrors ''Medication validation failed'' medicationErrs\<rparr>)
                     else
                       (let p = \<lparr>p_id = newObjectId ev s,
                                 p_appointmentId = a_id appt,
                                 p_doctorId = uid,
                                 p_patientId = a_patientId appt,
                                 p_diagnosis = diagnosis,
                                 p_medications = the medications,
                                 p_tests = tests,
                                 p_notes = notes,
                                 p_followUpDate = (if truthy followUpDate then followUpDate else None),
                                 p_date = now ev\<rparr>
                        in case Prescription_save ev s p of
                             Inl e \<Rightarrow> (s, Inl e)
                           | Inr s1 \<Rightarrow>
                               (case Appointment_save ev s1 (appt\<lparr>a_prescriptionId := Some (p_id p)\<rparr>) of
                                  Inl e \<Rightarrow> (s1, Inl e)
                                | Inr s2 \<Rightarrow>
                                    (s2, Inr \<lparr>status = 201,
                                              body = MsgPrescription ''Prescription created successfully'' p\<rparr>)))))))"

definition createPrescription :: "env \<Rightarrow> store \<Rightarrow> request \<Rightarrow> store \<times> response" where
  "createPrescription ev s req =
     (case createPrescription_try ev s req of
        (s', Inr r) \<Rightarrow> (s', r)
      | (s', Inl e) \<Rightarrow> (s', catch_block ev ''Failed to create prescription'' e))"

subsection \<open>Listings and the single read\<close>

text \<open>
  Projections of a query: \<open>select\<close> with a list of names keeps those fields,
  with names prefixed by a minus sign it drops them; the identifier stays.
\<close>

definition select_only :: "string list \<Rightarrow> profile \<Rightarrow> profile" where
  "select_only names d = d\<lparr>pf_doc := filter (\<lambda>kv. fst kv \<in> set names) (pf_doc d)\<rparr>"

definition select_without :: "string list \<Rightarrow> profile \<Rightarrow> profile" where
  "select_without names d = d\<lparr>pf_doc := filter (\<lambda>kv. fst kv \<notin> set names) (pf_doc d)\<rparr>"

text \<open>
  Modelled from the spec: the Prescription schema (models/Appointment/Prescription.js)
  is not part of the sources, so the collections its references point into are taken
  from the spec's "relational population of linked doctor/patient/appointment summary
  fields": a reference resolves to the document of the linked collection with that
  identifier, cut down to the selected fields, or to \<open>null\<close>.
\<close>

definition populate :: "profile list \<Rightarrow> string list \<Rightarrow> oid \<Rightarrow> popref" where
  "populate coll names i =
     Populated (map_option (select_only names) (find (\<lambda>d. pf_id d = i) coll))"

definition appointment_docs :: "store \<Rightarrow> profile list" where
  "appointment_docs s = map (\<lambda>a. \<lparr>pf_id = a_id a, pf_doc = a_doc a\<rparr>) (appointments s)"

text \<open>\<open>sort({ date: -1 })\<close>: latest first. The order the store gives to equal
  dates is its own; here they keep their stored order.\<close>

definition sort_date_desc :: "prescription list \<Rightarrow> prescription list" where
  "sort_date_desc ps = sort_key (\<lambda>p. - p_date p) ps"

text \<open>The patient listing queries by the requester's userId, an object id: nothing in
  its \<open>try\<close> block throws, so the handler is that block.\<close>

definition getPatientPrescriptions :: "env \<Rightarrow> store \<Rightarrow> request \<Rightarrow> response" where
  "getPatientPrescriptions ev s req =
     (let uid = userId (req_user req);
          found = sort_date_desc (filter (\<lambda>p. p_patientId p = uid) (prescriptions s));
          result = map (\<lambda>p. \<lparr>pp_doc = p,
                               pp_doctorId = populate (doctors s) [''name'', ''specialization''] (p_doctorId p),
                               pp_patientId = Raw (p_patientId p),
                               pp_appointmentId = populate (appointment_docs s) [''date''] (p_appointmentId p)\<rparr>)
                       found
      in \<lparr>status = 200, body = CountPrescriptions (length result) result\<rparr>)"

text \<open>\<open>Prescription.find(query)\<close> of the doctor listing: \<open>{ doctorId: userId }\<close>,
  with \<open>patientId\<close> added when the handler has put it into the query.\<close>

definition Prescription_find_doctor ::
    "env \<Rightarrow> store \<Rightarrow> oid \<Rightarrow> string option \<Rightarrow> exn + prescription list" where
  "Prescription_find_doctor ev s uid query_patientId =
     (case query_patientId of
        None \<Rightarrow> Inr (filter (\<lambda>p. p_doctorId p = uid) (prescriptions s))
      | Some v \<Rightarrow>
          (case cast_query ev v of
             Inl e \<Rightarrow> Inl e
           | Inr i \<Rightarrow> Inr (filter (\<lambda>p. p_doctorId p = uid \<and> p_patientId p = i) (prescriptions s))))"

definition getDoctorPrescriptions_try :: "env \<Rightarrow> store \<Rightarrow> request \<Rightarrow> exn + response" where
  "getDoctorPrescriptions_try ev s req =
     (let uid = userId (req_user req);
          patientId = map_of (query req) ''patientId'';
          query_patientId = (if truthy_str patientId then patientId else None)
      in case Prescription_find_doctor ev s uid query_patientId of
           Inl e \<Rightarrow> Inl e
         | Inr matching \<Rightarrow>
             (let result = map (\<lambda>p. \<lparr>pp_doc = p,
                                      pp_doctorId = Raw (p_doctorId p),
                                      pp_patientId = populate (patients s) [''name''] (p_patientId p),
                                      pp_appointmentId =
                                        populate (appointment_docs s) [''date''] (p_appointmentId p)\<rparr>)
                              (sort_date_desc matching)
              in Inr \<lparr>status = 200, body = CountPrescriptions (length result) result\<rparr>))"

definition getDoctorPrescriptions :: "env \<Rightarrow> store \<Rightarrow> request \<Rightarrow> response" where
  "getDoctorPrescriptions ev s req =
     (case getDoctorPrescriptions_try ev s req of
        Inr r \<Rightarrow> r
      | Inl e \<Rightarrow> catch_block ev ''Failed to fetch prescriptions'' e)"

definition Prescription_findById :: "env \<Rightarrow> store \<Rightarrow> string option \<Rightarrow> exn + prescription option" where
  "Prescription_findById ev s prescriptionId =
     (case prescriptionId of
        None \<Rightarrow> Inr None
      | Some v \<Rightarrow>
          (case cast_query ev v of
             Inl e \<Rightarrow> Inl e
           | Inr i \<Rightarrow> Inr (find (\<lambda>p. p_id p = i) (prescriptions s))))"

definition getPrescription_try :: "env \<Rightarrow> store \<Rightarrow> request \<Rightarrow> exn + response" where
  "getPrescription_try ev s req =
     (let prescriptionId = map_of (params req) ''prescriptionId''
      in case Prescription_findById ev s prescriptionId of
           Inl e \<Rightarrow> Inl e
         | Inr None \<Rightarrow> Inr \<lparr>status = 404, body = Msg ''Prescription not found''\<rparr>
         | Inr (Some p) \<Rightarrow>
             Inr \<lparr>status = 200,
                  body = OnePrescription
                    \<lparr>pp_doc = p,
                     pp_doctorId = populate (doctors s)
                        [''name'', ''specialization'', ''licenseNumber''] (p_doctorId p),
                     pp_patientId = populate (patients s)
                        [''name'', ''dateOfBirth'', ''gender''] (p_patientId p),
                     pp_appointmentId = populate (appointment_docs s)
                        [''date'', ''reason''] (p_appointmentId p)\<rparr>\<rparr>)"

definition getPrescription :: "env \<Rightarrow> store \<Rightarrow> request \<Rightarrow> response" where
  "getPrescription ev s req =
     (case getPrescription_try ev s req of
        Inr r \<Rightarrow> r
      | Inl e \<Rightarrow> catch_block ev ''Failed to fetch prescription'' e)"

section \<open>Doctor profile controller\<close>

text \<open>\<open>Doctor.findOne({ userId })\<close>\<close>

definition Doctor_findOne :: "store \<Rightarrow> oid \<Rightarrow> profile option" where
  "Doctor_findOne s uid = find (\<lambda>d. map_of (pf_doc d) ''userId'' = Some (JId uid)) (doctors s)"

text \<open>Object spread \<open>{ ...a, ...b }\<close>: the fields of \<open>b\<close> are assigned onto \<open>a\<close>
  in order.\<close>

definition spread :: "jobj \<Rightarrow> jobj \<Rightarrow> jobj" where
  "spread a b = fold (\<lambda>kv. AList.update (fst kv) (snd kv)) b a"

text \<open>The upload step both profile handlers share: without a file the data pass
  unchanged; a failed upload is caught on the spot and answered.\<close>

definition upload_picture :: "env \<Rightarrow> request \<Rightarrow> jobj \<Rightarrow> response + jobj" where
  "upload_picture ev req dat =
     (case req_file req of
        None \<Rightarrow> Inr dat
      | Some path \<Rightarrow>
          (case uploadToCloudinary ev path of
             Inl e \<Rightarrow> Inl \<lparr>status = 500, body = Msg ''Failed to upload profile picture''\<rparr>
           | Inr url \<Rightarrow> Inr (AList.update ''profilePicture'' (JStr url) dat)))"

definition createDoctorProfile_try :: "env \<Rightarrow> store \<Rightarrow> request \<Rightarrow> store \<times> (exn + response)" where
  "createDoctorProfile_try ev s req =
     (let uid = userId (req_user req)
      in if \<not> isValid ev (Instance uid) then
           (s, Inr \<lparr>status = 400, body = Msg ''Invalid user ID format''\<rparr>)
         else if Doctor_findOne s uid \<noteq> None then
           (s, Inr \<lparr>status = 409, body = Msg ''Doctor profile already exists''\<rparr>)
         else
           (case req_body req of
              None \<Rightarrow> (s, Inl (Error ''Cannot read properties of undefined (reading specialization)''))
            | Some doctorData \<Rightarrow>
                (let specialization = map_of doctorData ''specialization'';
                     qualifications = map_of doctorData ''qualifications''
                 in if \<not> truthy specialization \<or> \<not> truthy qualifications then
                      (s, Inr \<lparr>status = 400,
                               body = MsgFieldErrors ''Specialization and qualifications are required''
                                 [(''specialization'',
                                     if \<not> truthy specialization then Some ''Specialization is required'' else None),
                                  (''qualifications'',
                                     if \<not> truthy qualifications then Some ''Qualifications are required'' else None)]\<rparr>)
                    else
                      (case upload_picture ev req doctorData of
                         Inl r \<Rightarrow> (s, Inr r)
                       | Inr dat \<Rightarrow>
                           (let doctor = \<lparr>pf_id = newObjectId ev s,
                                          pf_doc = spread [(''userId'', JId uid)] dat\<rparr>
                            in if validateDoctor ev (pf_doc doctor) \<noteq> [] then
                                 (s, Inl (ValidationError (validateDoctor ev (pf_doc doctor))))
                               else
                                 (s\<lparr>doctors := doctors s @ [doctor]\<rparr>,
                                  Inr \<lparr>status = 201,
                                       body = MsgDoctor ''Doctor profile created successfully'' doctor\<rparr>))))))"

definition createDoctorProfile :: "env \<Rightarrow> store \<Rightarrow> request \<Rightarrow> store \<times> response" where
  "createDoctorProfile ev s req =
     (case createDoctorProfile_try ev s req of
        (s', Inr r) \<Rightarrow> (s', r)
      | (s', Inl e) \<Rightarrow> (s', catch_block ev ''Failed to create doctor profile'' e))"

text \<open>\<open>findOneAndUpdate\<close> with \<open>runValidators\<close>: the update is validated, then the
  first matching document takes the submitted fields and is returned as updated.\<close>

fun update_first :: "('a \<Rightarrow> bool) \<Rightarrow> ('a \<Rightarrow> 'a) \<Rightarrow> 'a list \<Rightarrow> 'a list" where
  "update_first P f [] = []"
| "update_first P f (x # xs) = (if P x then f x # xs else x # update_first P f xs)"

definition Doctor_findOneAndUpdate ::
    "env \<Rightarrow> store \<Rightarrow> oid \<Rightarrow> jobj \<Rightarrow> exn + (store \<times> profile option)" where
  "Doctor_findOneAndUpdate ev s uid updates =
     (if validateDoctorUpdate ev updates \<noteq> [] then
        Inl (ValidationError (validateDoctorUpdate ev updates))
      else
        (let owned = (\<lambda>d. map_of (pf_doc d) ''userId'' = Some (JId uid));
             change = (\<lambda>d. d\<lparr>pf_doc := spread (pf_doc d) updates\<rparr>)
         in Inr (s\<lparr>doctors := update_first owned change (doctors s)\<rparr>,
                 map_option change (find owned (doctors s)))))"

text \<open>The first test is
  \<open>!updates || Object.keys(updates).length === 0 && !req.file\<close>, where \<open>&&\<close> binds
  tighter than \<open>||\<close>.\<close>

definition updateDoctorProfile_try :: "env \<Rightarrow> store \<Rightarrow> request \<Rightarrow> store \<times> (exn + response)" where
  "updateDoctorProfile_try ev s req =
     (let uid = userId (req_user req);
          updates = req_body req
      in if updates = None \<or> (length (map fst (the updates)) = 0 \<and> req_file req = None) then
           (s, Inr \<lparr>status = 400, body = Msg ''No updates provided''\<rparr>)
         else
           (case upload_picture ev req (the updates) of
              Inl r \<Rightarrow> (s, Inr r)
            | Inr dat \<Rightarrow>
                (case Doctor_findOneAndUpdate ev s uid dat of
                   Inl e \<Rightarrow> (s, Inl e)
                 | Inr (s', None) \<Rightarrow>
                     (s', Inr \<lparr>status = 404, body = Msg ''Doctor profile not found''\<rparr>)
                 | Inr (s', Some doctor) \<Rightarrow>
                     (s', Inr \<lparr>status = 200,
                               body = MsgDoctor ''Doctor profile updated successfully''
                                        (select_without [''__v''] doctor)\<rparr>))))"

definition updateDoctorProfile :: "env \<Rightarrow> store \<Rightarrow> request \<Rightarrow> store \<times> response" where
  "updateDoctorProfile ev s req =
     (case updateDoctorProfile_try ev s req of
        (s', Inr r) \<Rightarrow> (s', r)
      | (s', Inl e) \<Rightarrow> (s', catch_block ev ''Failed to update doctor profile'' e))"

text \<open>\<open>Doctor.find({ clinicId })\<close> with its projection and population.\<close>

definition Doctor_find_clinic :: "env \<Rightarrow> store \<Rightarrow> string \<Rightarrow> exn + (profile \<times> popref) list" where
  "Doctor_find_clinic ev s clinicId =
     (case cast_query ev clinicId of
        Inl e \<Rightarrow> Inl e
      | Inr i \<Rightarrow>
          Inr (map (\<lambda>d. (select_without [''appointments'', ''ratings'', ''__v''] d,
                          populate (clinics s) [''name'', ''location''] i))
                 (filter (\<lambda>d. map_of (pf_doc d) ''clinicId'' = Some (JId i)) (doctors s))))"

definition getDoctorsByClinic_try :: "env \<Rightarrow> store \<Rightarrow> request \<Rightarrow> exn + response" where
  "getDoctorsByClinic_try ev s req =
     (case map_of (params req) ''clinicId'' of
        None \<Rightarrow> Inr \<lparr>status = 400, body = Msg ''Invalid clinic ID format''\<rparr>
      | Some clinicId \<Rightarrow>
          if \<not> isValid ev (Text clinicId) then
            Inr \<lparr>status = 400, body = Msg ''Invalid clinic ID format''\<rparr>
          else
            (case Doctor_find_clinic ev s clinicId of
               Inl e \<Rightarrow> Inl e
             | Inr found \<Rightarrow>
                 if length found = 0 then
                   Inr \<lparr>status = 404,
                        body = MsgSuggestions ''No doctors found for this clinic''
                                 ''Check if the clinic ID is correct''\<rparr>
                 else Inr \<lparr>status = 200, body = CountDoctors (length found) found\<rparr>))"

definition getDoctorsByClinic :: "env \<Rightarrow> store \<Rightarrow> request \<Rightarrow> response" where
  "getDoctorsByClinic ev s req =
     (case getDoctorsByClinic_try ev s req of
        Inr r \<Rightarrow> r
      | Inl e \<Rightarrow> catch_block ev ''Failed to fetch doctors'' e)"

section \<open>Authentication middleware\<close>

text \<open>\<open>header.split(' ')\<close>: the pieces between single spaces, empty pieces
  included.\<close>

fun split_space :: "string \<Rightarrow> string list" where
  "split_space [] = [[]]"
| "split_space (c # cs) =
     (if c = CHR '' '' then [] # split_space cs
      else (case split_space cs of
              [] \<Rightarrow> [[c]]
            | w # ws \<Rightarrow> (c # w) # ws))"

text \<open>\<open>authHeader?.split(' ')[1]\<close>\<close>

definition bearer_token :: "string option \<Rightarrow> string option" where
  "bearer_token authHeader =
     (case authHeader of
        None \<Rightarrow> None
      | Some h \<Rightarrow> (if 1 < length (split_space h) then Some (split_space h ! 1) else None))"

text \<open>The middleware reads the headers of the request only. It answers, or it
  hands the identity it attaches as \<open>req.user\<close> to the next handler.\<close>

datatype outcome = Respond response | Next identity

definition profile_owner :: "oid \<Rightarrow> profile \<Rightarrow> bool" where
  "profile_owner uid d = (map_of (pf_doc d) ''userId'' = Some (JId uid))"

text \<open>The \<open>switch\<close> on the role; any other role leaves the profile undefined.\<close>

definition role_profile :: "store \<Rightarrow> user \<Rightarrow> profile option" where
  "role_profile s u =
     (if u_role u = ''admin'' then find (profile_owner (u_id u)) (admins s)
      else if u_role u = ''doctor'' then find (profile_owner (u_id u)) (doctors s)
      else if u_role u = ''patient'' then find (profile_owner (u_id u)) (patients s)
      else None)"

text \<open>\<open>User.findById(id).select('-password -refreshToken')\<close>\<close>

definition User_findById :: "store \<Rightarrow> oid \<Rightarrow> user option" where
  "User_findById s i =
     map_option (\<lambda>u. u\<lparr>u_doc := filter (\<lambda>kv. fst kv \<notin> {''password'', ''refreshToken''}) (u_doc u)\<rparr>)
       (find (\<lambda>u. u_id u = i) (users s))"

text \<open>Whatever is thrown inside the \<open>try\<close> block is answered 403; with an object id
  from the token service only the token service throws.\<close>

definition authenticate :: "env \<Rightarrow> store \<Rightarrow> (string \<times> string) list \<Rightarrow> outcome" where
  "authenticate ev s headers =
     (let token = bearer_token (map_of headers ''authorization'')
      in if \<not> truthy_str token then
           Respond \<lparr>status = 401, body = Msg ''Authentication required''\<rparr>
         else
           (case verifyAccessToken ev (the token) of
              Inl e \<Rightarrow> Respond \<lparr>status = 403, body = Msg ''Invalid or expired token''\<rparr>
            | Inr decoded_userId \<Rightarrow>
                (case User_findById s decoded_userId of
                   None \<Rightarrow> Respond \<lparr>status = 404, body = Msg ''User not found''\<rparr>
                 | Some u \<Rightarrow>
                     (case role_profile s u of
                        None \<Rightarrow> Respond \<lparr>status = 404, body = Msg ''Profile not found''\<rparr>
                      | Some pr \<Rightarrow>
                          Next \<lparr>i_user = u, userId = u_id u, profileId = pf_id pr,
                                role = u_role u\<rparr>))))"

section \<open>Notions of the specification\<close>

text \<open>An entry is "missing any of the four fields name, dosage, frequency, duration"
  when reading one of them yields no value.\<close>

definition lacks_field :: "json \<Rightarrow> bool" where
  "lacks_field med =
     list_ex (\<lambda>k. get_prop med k = Inr None) [''name'', ''dosage'', ''frequency'', ''duration'']"

text \<open>The records a listing returns and the count it reports, read off the response.\<close>

definition listed :: "response \<Rightarrow> prescription list" where
  "listed r = (case body r of CountPrescriptions n ps \<Rightarrow> map pp_doc ps | _ \<Rightarrow> [])"

definition reported_count :: "response \<Rightarrow> nat option" where
  "reported_count r = (case body r of CountPrescriptions n ps \<Rightarrow> Some n | _ \<Rightarrow> None)"

text \<open>"Sorted by descending date": no record comes before one with a later date.\<close>

definition latest_first :: "prescription list \<Rightarrow> bool" where
  "latest_first ps = sorted_wrt (\<lambda>p q. p_date q \<le> p_date p) ps"

section \<open>A small clinic\<close>

text \<open>
  A concrete environment, store and requests, on which the theorems below are run.
  Two doctors and a patient are registered; a fourth user has the doctor role and no
  profile yet. The first doctor has one appointment with the patient and has written
  two prescriptions, the second doctor one. Strings of 24 hexadecimal digits convert
  to object ids.
\<close>

definition hex24 :: "string \<Rightarrow> bool" where
  "hex24 x = (length x = 24 \<and> list_all (\<lambda>c. c \<in> set ''0123456789abcdef'') x)"

abbreviation "id_d1 \<equiv> ObjectId ''64b0000000000000000000d1''"
abbreviation "id_d2 \<equiv> ObjectId ''64b0000000000000000000d2''"
abbreviation "id_d4 \<equiv> ObjectId ''64b0000000000000000000d4''"
abbreviation "id_a1 \<equiv> ObjectId ''64b0000000000000000000a1''"
abbreviation "id_a2 \<equiv> ObjectId ''64b0000000000000000000a2''"
abbreviation "id_b1 \<equiv> ObjectId ''64b0000000000000000000b1''"
abbreviation "id_c1 \<equiv> ObjectId ''64b0000000000000000000c1''"
abbreviation "id_f1 \<equiv> ObjectId ''64b0000000000000000000f1''"
abbreviation "id_f2 \<equiv> ObjectId ''64b0000000000000000000f2''"
abbreviation "id_f3 \<equiv> ObjectId ''64b0000000000000000000f3''"

definition clinic_env :: env where
  "clinic_env =
     \<lparr>development = False,
      castObjectId = (\<lambda>v. if hex24 v then Some (ObjectId v) else None),
      verifyAccessToken = (\<lambda>t. if t = ''tok-d1'' then Inr id_d1
                                else if t = ''tok-d4'' then Inr id_d4
                                else if t = ''tok-gone'' then Inr (ObjectId ''64b0000000000000000000ff'')
                                else if t = ''tok-old'' then Inl (Error ''jwt expired'')
                                else Inl (Error ''jwt malformed'')),
      uploadToCloudinary = (\<lambda>path. Inr (''https://cdn.example/'' @ path)),
      newObjectId = (\<lambda>s. ObjectId (''64b0000000000000000000e'' @ show_nat (length (prescriptions s) mod 10))),
      now = 500,
      validatePrescription = (\<lambda>p. []),
      validateAppointment = (\<lambda>a. []),
      validateDoctor = (\<lambda>d. []),
      validateDoctorUpdate = (\<lambda>d. [])\<rparr>"

definition clinic_store :: store where
  "clinic_store =
     \<lparr>users =
        [\<lparr>u_id = id_d1, u_role = ''doctor'',
          u_doc = [(''email'', JStr ''d1@clinic''), (''password'', JStr ''hash1'')]\<rparr>,
         \<lparr>u_id = id_d2, u_role = ''doctor'', u_doc = [(''email'', JStr ''d2@clinic'')]\<rparr>,
         \<lparr>u_id = id_a1, u_role = ''patient'', u_doc = [(''email'', JStr ''p1@home'')]\<rparr>,
         \<lparr>u_id = id_d4, u_role = ''doctor'', u_doc = [(''email'', JStr ''d4@clinic'')]\<rparr>],
      admins = [],
      doctors =
        [\<lparr>pf_id = id_d1,
          pf_doc = [(''userId'', JId id_d1), (''clinicId'', JId id_c1),
                    (''name'', JStr ''Asha''), (''specialization'', JStr ''ENT''),
                    (''licenseNumber'', JStr ''L-77''), (''__v'', JNum 0)]\<rparr>,
         \<lparr>pf_id = id_d2,
          pf_doc = [(''userId'', JId id_d2), (''clinicId'', JId id_c1),
                    (''name'', JStr ''Ben''), (''specialization'', JStr ''Skin'')]\<rparr>],
      patients =
        [\<lparr>pf_id = id_a1,
          pf_doc = [(''userId'', JId id_a1), (''name'', JStr ''Pia''),
                    (''dateOfBirth'', JStr ''1990-01-01'')]\<rparr>],
      clinics =
        [\<lparr>pf_id = id_c1,
          pf_doc = [(''name'', JStr ''Central''), (''location'', JStr ''Main St'')]\<rparr>],
      appointments =
        [\<lparr>a_id = id_b1, a_doctorId = id_d1, a_patientId = id_a1, a_prescriptionId = None,
          a_doc = [(''date'', JStr ''2024-05-01''), (''reason'', JStr ''cough'')]\<rparr>],
      prescriptions =
        [\<lparr>p_id = id_f1, p_appointmentId = ObjectId ''64b0000000000000000000b7'',
          p_doctorId = id_d1, p_patientId = id_a1,
          p_diagnosis = Some (JStr ''cold''), p_medications = JArr [], p_tests = None,
          p_notes = None, p_followUpDate = None, p_date = 100\<rparr>,
         \<lparr>p_id = id_f2, p_appointmentId = ObjectId ''64b0000000000000000000b8'',
          p_doctorId = id_d1, p_patientId = id_a2,
          p_diagnosis = None, p_medications = JArr [], p_tests = None,
          p_notes = None, p_followUpDate = None, p_date = 300\<rparr>,
         \<lparr>p_id = id_f3, p_appointmentId = ObjectId ''64b0000000000000000000b9'',
          p_doctorId = id_d2, p_patientId = id_a1,
          p_diagnosis = None, p_medications = JArr [], p_tests = None,
          p_notes = None, p_followUpDate = None, p_date = 200\<rparr>]\<rparr>"

definition doctor1 :: identity where
  "doctor1 =
     \<lparr>i_user = \<lparr>u_id = id_d1, u_role = ''doctor'', u_doc = [(''email'', JStr ''d1@clinic'')]\<rparr>,
      userId = id_d1, profileId = id_d1, role = ''doctor''\<rparr>"

definition doctor2 :: identity where
  "doctor2 =
     \<lparr>i_user = \<lparr>u_id = id_d2, u_role = ''doctor'', u_doc = [(''email'', JStr ''d2@clinic'')]\<rparr>,
      userId = id_d2, profileId = id_d2, role = ''doctor''\<rparr>"

definition patient1 :: identity where
  "patient1 =
     \<lparr>i_user = \<lparr>u_id = id_a1, u_role = ''patient'', u_doc = [(''email'', JStr ''p1@home'')]\<rparr>,
      userId = id_a1, profileId = id_a1, role = ''patient''\<rparr>"

text \<open>A request of the identity \<open>who\<close> with route parameters, query and body.\<close>

definition request_of ::
    "identity \<Rightarrow> (string \<times> string) list \<Rightarrow> (string \<times> string) list \<Rightarrow> jobj option \<Rightarrow> request" where
  "request_of who ps qs b =
     \<lparr>req_user = who, params = ps, query = qs, req_body = b, req_file = None\<rparr>"

definition good_medication :: json where
  "good_medication =
     JObj [(''name'', JStr ''Amoxicillin''), (''dosage'', JStr ''500mg''),
           (''frequency'', JStr ''3/day''), (''duration'', JStr ''7 days'')]"

section \<open>Properties of the prescription controller\<close>

lemma cast_clinic [simp]:
  "castObjectId clinic_env v = (if hex24 v then Some (ObjectId v) else None)"
  by (simp add: clinic_env_def)

text \<open>
  C2. A create-prescription request whose body has no medications field, or an empty
  medications list, is answered with status 400 and an errors object whose medications
  entry is the message 'At least one medication is required'; the store is returned
  as it was, so no prescription is persisted and no appointment is modified.
\<close>

theorem createPrescription_without_medications:
  assumes "req_body req = Some b"
    and "map_of b ''medications'' = None \<or> map_of b ''medications'' = Some (JArr [])"
  shows "createPrescription ev s req =
     (s, \<lparr>status = 400,
          body = MsgFieldErrors ''Appointment ID and medications are required''
            [(''appointmentId'',
                if \<not> truthy_str (map_of (params req) ''appointmentId'')
                then Some ''Appointment ID is required'' else None),
             (''medications'', Some ''At least one medication is required'')]\<rparr>)"
  using assms by (auto simp: createPrescription_def createPrescription_try_def Let_def)

theorem createPrescription_without_medications_witness:
  "createPrescription clinic_env clinic_store
     (request_of doctor1 [(''appointmentId'', ''64b0000000000000000000b1'')] []
        (Some [(''diagnosis'', JStr ''cold''), (''medications'', JArr [])])) =
   (clinic_store,
    \<lparr>status = 400,
     body = MsgFieldErrors ''Appointment ID and medications are required''
       [(''appointmentId'', None),
        (''medications'', Some ''At least one medication is required'')]\<rparr>)"
  using createPrescription_without_medications
    [of "request_of doctor1 [(''appointmentId'', ''64b0000000000000000000b1'')] []
           (Some [(''diagnosis'', JStr ''cold''), (''medications'', JArr [])])"
        "[(''diagnosis'', JStr ''cold''), (''medications'', JArr [])]"
        clinic_env clinic_store]
  by (simp add: request_of_def truthy_str_def)

text \<open>
  C1, as stated, fails: the required-field check comes before the appointment lookup.
  Doctor 1 asks for an appointment that does not exist, with a body without
  medications, and is answered 400, not 404.
\<close>

theorem createPrescription_unowned_counterexample:
  "Appointment_findOne clinic_env clinic_store ''64b0000000000000000000b5'' (userId doctor1) = Inr None \<and>
   createPrescription clinic_env clinic_store
     (request_of doctor1 [(''appointmentId'', ''64b0000000000000000000b5'')] [] (Some [])) =
   (clinic_store,
    \<lparr>status = 400,
     body = MsgFieldErrors ''Appointment ID and medications are required''
       [(''appointmentId'', None),
        (''medications'', Some ''At least one medication is required'')]\<rparr>)"
  by (simp add: Appointment_findOne_def cast_query_def hex24_def clinic_store_def doctor1_def
      createPrescription_def createPrescription_try_def request_of_def truthy_str_def)

text \<open>
  C1, amended. A create-prescription request that passes the required-field check (its
  body is an object, its appointmentId is not empty, its medications value is truthy
  and not of length zero), whose appointmentId is the text of an object id, and for
  which no appointment has both that id and the requester's userId as doctorId, is
  answered with status 404 and the one fixed body 'Appointment not found or not
  authorized': the answer does not tell an absent appointment from another doctor's.
  The store is returned as it was.
\<close>

theorem createPrescription_unowned:
  assumes "req_body req = Some b"
    and "map_of (params req) ''appointmentId'' = Some aid" and "aid \<noteq> []"
    and "map_of b ''medications'' = Some m" and "truthy (Some m)" and "\<not> length_is_zero m"
    and "castObjectId ev aid = Some i"
    and "\<not> (\<exists>a \<in> set (appointments s). a_id a = i \<and> a_doctorId a = userId (req_user req))"
  shows "createPrescription ev s req =
     (s, \<lparr>status = 404, body = Msg ''Appointment not found or not authorized''\<rparr>)"
proof -
  have "Appointment_findOne ev s aid (userId (req_user req)) = Inr None"
    using assms(7,8) by (auto simp: Appointment_findOne_def cast_query_def find_None_iff)
  then show ?thesis
    using assms(1-6)
    by (simp add: createPrescription_def createPrescription_try_def Let_def truthy_str_def)
qed

text \<open>The appointment exists and is doctor 1's; doctor 2 asks for it.\<close>

theorem createPrescription_unowned_witness:
  "createPrescription clinic_env clinic_store
     (request_of doctor2 [(''appointmentId'', ''64b0000000000000000000b1'')] []
        (Some [(''medications'', JArr [good_medication])])) =
   (clinic_store, \<lparr>status = 404, body = Msg ''Appointment not found or not authorized''\<rparr>)"
  using createPrescription_unowned
    [of "request_of doctor2 [(''appointmentId'', ''64b0000000000000000000b1'')] []
           (Some [(''medications'', JArr [good_medication])])"
        "[(''medications'', JArr [good_medication])]"
        "''64b0000000000000000000b1''" "JArr [good_medication]" clinic_env id_b1 clinic_store]
  by (simp add: request_of_def clinic_store_def doctor2_def hex24_def)

subsection \<open>Validation of the entries\<close>

lemma missing_required_total: "med \<noteq> JNull \<Longrightarrow> \<exists>b. missing_required med = Inr b"
  by (cases med) (auto simp: missing_required_def)

lemma lacks_field_flagged: "lacks_field med \<Longrightarrow> missing_required med = Inr True"
  by (cases med) (auto simp: lacks_field_def missing_required_def)

lemma medicationErrors_enumerate:
  "JNull \<notin> set meds \<Longrightarrow>
   medicationErrors k meds =
     Inr (map (\<lambda>im. medication_message (fst im))
            (filter (\<lambda>im. missing_required (snd im) = Inr True) (enumerate k meds)))"
proof (induction meds arbitrary: k)
  case Nil
  then show ?case by simp
next
  case (Cons med meds)
  then obtain b where b: "missing_required med = Inr b"
    using missing_required_total [of med] by auto
  with Cons show ?case by simp
qed

text \<open>
  C3, as stated, fails: the ownership check comes before the validation of the
  entries. Doctor 2 sends an entry without dosage, frequency and duration for doctor 1's
  appointment and is answered 404, with no error for the entry.
\<close>

theorem createPrescription_entries_counterexample:
  "lacks_field (JObj [(''name'', JStr ''Aspirin'')]) \<and>
   createPrescription clinic_env clinic_store
     (request_of doctor2 [(''appointmentId'', ''64b0000000000000000000b1'')] []
        (Some [(''medications'', JArr [JObj [(''name'', JStr ''Aspirin'')]])])) =
   (clinic_store, \<lparr>status = 404, body = Msg ''Appointment not found or not authorized''\<rparr>)"
  by (simp add: lacks_field_def Appointment_findOne_def cast_query_def hex24_def clinic_store_def
      doctor2_def createPrescription_def createPrescription_try_def request_of_def truthy_str_def
      Let_def)

text \<open>
  C3, amended. For a create-prescription request whose appointment is found and owned
  by the requester and whose medications value is a list without \<open>null\<close> entries, at
  least one of which fails the test of the four fields: the answer is a single 400
  whose errors are the messages of all failing entries, one per entry, in order, each
  naming the entry's position (counted from 1); an entry missing any of name, dosage,
  frequency, duration fails the test. The store is returned as it was.
\<close>

theorem createPrescription_entries:
  assumes "req_body req = Some b"
    and "map_of (params req) ''appointmentId'' = Some aid" and "aid \<noteq> []"
    and "Appointment_findOne ev s aid (userId (req_user req)) = Inr (Some appt)"
    and "map_of b ''medications'' = Some (JArr meds)"
    and "JNull \<notin> set meds"
    and "list_ex (\<lambda>med. missing_required med = Inr True) meds"
  shows "createPrescription ev s req =
     (s, \<lparr>status = 400,
          body = MsgErrors ''Medication validation failed''
            (map (\<lambda>im. medication_message (fst im))
               (filter (\<lambda>im. missing_required (snd im) = Inr True) (enumerate 0 meds)))\<rparr>) \<and>
     list_all (\<lambda>med. lacks_field med \<longrightarrow> missing_required med = Inr True) meds"
proof -
  let ?errs = "map (\<lambda>im. medication_message (fst im))
               (filter (\<lambda>im. missing_required (snd im) = Inr True) (enumerate 0 meds))"
  obtain med where med: "med \<in> set meds" "missing_required med = Inr True"
    using assms(7) by (auto simp: list_ex_iff)
  then obtain k where k: "k < length meds" "meds ! k = med"
    by (auto simp: in_set_conv_nth)
  then have "(k, med) \<in> set (enumerate 0 meds)"
    by (auto simp: in_set_enumerate_eq)
  with med(2) have "?errs \<noteq> []"
    by (auto simp: filter_empty_conv intro!: bexI [of _ "(k, med)"])
  moreover have "meds \<noteq> []" using med(1) by auto
  moreover have "forEach_medications (JArr meds) = Inr ?errs"
    using assms(6) by (simp add: forEach_medications_def medicationErrors_enumerate)
  ultimately have "createPrescription ev s req =
     (s, \<lparr>status = 400, body = MsgErrors ''Medication validation failed'' ?errs\<rparr>)"
    using assms(1-5)
    by (simp add: createPrescription_def createPrescription_try_def Let_def truthy_str_def)
  moreover have "list_all (\<lambda>med. lacks_field med \<longrightarrow> missing_required med = Inr True) meds"
    by (simp add: list_all_iff lacks_field_flagged)
  ultimately show ?thesis by simp
qed

text \<open>Three entries, the first and the third incomplete: both are reported.\<close>

theorem createPrescription_entries_witness:
  "createPrescription clinic_env clinic_store
     (request_of doctor1 [(''appointmentId'', ''64b0000000000000000000b1'')] []
        (Some [(''medications'',
                JArr [JObj [(''name'', JStr ''Aspirin'')], good_medication, JStr ''pill''])])) =
   (clinic_store,
    \<lparr>status = 400,
     body = MsgErrors ''Medication validation failed''
       [''Medication 1 is missing required fields'',
        ''Medication 3 is missing required fields'']\<rparr>)"
  using createPrescription_entries
    [of "request_of doctor1 [(''appointmentId'', ''64b0000000000000000000b1'')] []
           (Some [(''medications'',
                   JArr [JObj [(''name'', JStr ''Aspirin'')], good_medication, JStr ''pill''])])"
        "[(''medications'',
           JArr [JObj [(''name'', JStr ''Aspirin'')], good_medication, JStr ''pill''])]"
        "''64b0000000000000000000b1''" clinic_env clinic_store
        "hd (appointments clinic_store)"
        "[JObj [(''name'', JStr ''Aspirin'')], good_medication, JStr ''pill'']"]
  by (simp add: request_of_def clinic_store_def doctor1_def Appointment_findOne_def cast_query_def
      hex24_def good_medication_def missing_required_def medication_message_def show_nat.simps)

subsection \<open>The created prescription\<close>

lemma find_rewritten:
  assumes "find (\<lambda>a. a_id a = i \<and> a_doctorId a = u) xs = Some a"
    and "a_id a' = i" and "a_doctorId a' = u"
  shows "find (\<lambda>a. a_id a = i \<and> a_doctorId a = u)
           (map (\<lambda>x. if a_id x = i then a' else x) xs) = Some a'"
  using assms by (induction xs) (auto split: if_splits)

lemma catch_block_status: "status (catch_block ev msg e) \<noteq> 201"
  by (cases e) (simp_all add: catch_block_def)

lemma Appointment_findOne_Some:
  assumes "Appointment_findOne ev s v u = Inr (Some a)"
  shows "castObjectId ev v = Some (a_id a)" and "a_doctorId a = u"
    and "find (\<lambda>x. a_id x = a_id a \<and> a_doctorId x = u) (appointments s) = Some a"
  using assms
  by (auto simp: Appointment_findOne_def cast_query_def find_Some_iff split: option.splits)

text \<open>A 201 is reached on one path only: every check passed and both saves went
  through.\<close>

lemma created_path:
  assumes ok: "status (snd (createPrescription ev s req)) = 201"
  obtains b appt p s1 s2 where
    "req_body req = Some b"
    "Appointment_findOne ev s (the (map_of (params req) ''appointmentId'')) (userId (req_user req)) =
       Inr (Some appt)"
    "p_appointmentId p = a_id appt"
    "p_doctorId p = userId (req_user req)"
    "p_patientId p = a_patientId appt"
    "Prescription_save ev s p = Inr s1"
    "Appointment_save ev s1 (appt\<lparr>a_prescriptionId := Some (p_id p)\<rparr>) = Inr s2"
    "createPrescription ev s req =
       (s2, \<lparr>status = 201, body = MsgPrescription ''Prescription created successfully'' p\<rparr>)"
proof -
  note defs = createPrescription_def createPrescription_try_def Let_def
  let ?aid = "the (map_of (params req) ''appointmentId'')"
  let ?uid = "userId (req_user req)"
  obtain b where b: "req_body req = Some b"
    using ok by (cases "req_body req") (auto simp: defs catch_block_status)
  let ?m = "map_of b ''medications''"
  have chk: "\<not> (\<not> truthy_str (map_of (params req) ''appointmentId'') \<or>
                 (\<not> truthy ?m \<or> length_is_zero (the ?m)))"
  proof
    assume "\<not> truthy_str (map_of (params req) ''appointmentId'') \<or>
                 (\<not> truthy ?m \<or> length_is_zero (the ?m))"
    then have "status (snd (createPrescription ev s req)) = 400"
      using b by (simp add: defs)
    with ok show False by simp
  qed
  obtain appt where appt: "Appointment_findOne ev s ?aid ?uid = Inr (Some appt)"
  proof (cases "Appointment_findOne ev s ?aid ?uid")
    case (Inl e)
    then have "snd (createPrescription ev s req) = catch_block ev ''Failed to create prescription'' e"
      using b chk by (simp add: defs)
    with ok show ?thesis by (simp add: catch_block_status)
  next
    case (Inr found)
    show ?thesis
    proof (cases found)
      case None
      with Inr have "status (snd (createPrescription ev s req)) = 404"
        using b chk by (simp add: defs)
      with ok show ?thesis by simp
    next
      case (Some a)
      with Inr show ?thesis by (simp add: that)
    qed
  qed
  have errs: "forEach_medications (the ?m) = Inr []"
  proof (cases "forEach_medications (the ?m)")
    case (Inl e)
    then have "snd (createPrescription ev s req) = catch_block ev ''Failed to create prescription'' e"
      using b chk appt by (simp add: defs)
    with ok show ?thesis by (simp add: catch_block_status)
  next
    case (Inr es)
    show ?thesis
    proof (cases es)
      case Nil
      with Inr show ?thesis by simp
    next
      case (Cons e es')
      with Inr have "status (snd (createPrescription ev s req)) = 400"
        using b chk appt by (simp add: defs)
      with ok show ?thesis by simp
    qed
  qed
  define p where "p = \<lparr>p_id = newObjectId ev s, p_appointmentId = a_id appt, p_doctorId = ?uid,
      p_patientId = a_patientId appt, p_diagnosis = map_of b ''diagnosis'',
      p_medications = the ?m, p_tests = map_of b ''tests'', p_notes = map_of b ''notes'',
      p_followUpDate = (if truthy (map_of b ''followUpDate'') then map_of b ''followUpDate'' else None),
      p_date = now ev\<rparr>"
  have step: "createPrescription ev s req =
     (case Prescription_save ev s p of
        Inl e \<Rightarrow> (s, catch_block ev ''Failed to create prescription'' e)
      | Inr s1 \<Rightarrow>
          (case Appointment_save ev s1 (appt\<lparr>a_prescriptionId := Some (p_id p)\<rparr>) of
             Inl e \<Rightarrow> (s1, catch_block ev ''Failed to create prescription'' e)
           | Inr s2 \<Rightarrow> (s2, \<lparr>status = 201,
                              body = MsgPrescription ''Prescription created successfully'' p\<rparr>)))"
    using b chk appt errs unfolding p_def
    by (simp add: defs split: sum.splits)
  obtain s1 where s1: "Prescription_save ev s p = Inr s1"
    using ok step by (cases "Prescription_save ev s p") (auto simp: catch_block_status)
  obtain s2 where s2: "Appointment_save ev s1 (appt\<lparr>a_prescriptionId := Some (p_id p)\<rparr>) = Inr s2"
    using ok step s1
    by (cases "Appointment_save ev s1 (appt\<lparr>a_prescriptionId := Some (p_id p)\<rparr>)")
       (auto simp: catch_block_status)
  have res: "createPrescription ev s req =
       (s2, \<lparr>status = 201, body = MsgPrescription ''Prescription created successfully'' p\<rparr>)"
    using step s1 s2 by simp
  have fields: "p_appointmentId p = a_id appt" "p_doctorId p = ?uid" "p_patientId p = a_patientId appt"
    by (simp_all add: p_def)
  show thesis
    by (rule that [OF b appt fields s1 s2 res])
qed

text \<open>
  C4. Whenever createPrescription answers 201, an appointment \<open>appt\<close> with the
  supplied id and the requester as doctor was matched, and exactly one prescription
  \<open>p\<close> was appended to the store: its doctorId is the appointment's doctorId and the
  requester's userId, its patientId is the appointment's patientId, its appointmentId
  is the appointment's id; and in the resulting store the same lookup yields the
  appointment with prescriptionId set to the identifier of \<open>p\<close>.
\<close>

theorem createPrescription_created:
  assumes "status (snd (createPrescription ev s req)) = 201"
  shows "\<exists>appt p.
     Appointment_findOne ev s (the (map_of (params req) ''appointmentId'')) (userId (req_user req)) =
       Inr (Some appt) \<and>
     prescriptions (fst (createPrescription ev s req)) = prescriptions s @ [p] \<and>
     body (snd (createPrescription ev s req)) = MsgPrescription ''Prescription created successfully'' p \<and>
     p_appointmentId p = a_id appt \<and>
     p_doctorId p = a_doctorId appt \<and>
     p_doctorId p = userId (req_user req) \<and>
     p_patientId p = a_patientId appt \<and>
     Appointment_findOne ev (fst (createPrescription ev s req))
        (the (map_of (params req) ''appointmentId'')) (userId (req_user req)) =
       Inr (Some (appt\<lparr>a_prescriptionId := Some (p_id p)\<rparr>))"
proof -
  let ?aid = "the (map_of (params req) ''appointmentId'')"
  let ?uid = "userId (req_user req)"
  from assms obtain b appt p s1 s2 where
    "req_body req = Some b"
    and appt: "Appointment_findOne ev s ?aid ?uid = Inr (Some appt)"
    and p: "p_appointmentId p = a_id appt" "p_doctorId p = ?uid" "p_patientId p = a_patientId appt"
    and s1: "Prescription_save ev s p = Inr s1"
    and s2: "Appointment_save ev s1 (appt\<lparr>a_prescriptionId := Some (p_id p)\<rparr>) = Inr s2"
    and res: "createPrescription ev s req =
       (s2, \<lparr>status = 201, body = MsgPrescription ''Prescription created successfully'' p\<rparr>)"
    by (rule created_path)
  note found = Appointment_findOne_Some [OF appt]
  have s1_eq: "s1 = s\<lparr>prescriptions := prescriptions s @ [p]\<rparr>"
    using s1 by (simp add: Prescription_save_def split: if_splits)
  have s2_eq: "s2 = s1\<lparr>appointments :=
      map (\<lambda>x. if a_id x = a_id appt then appt\<lparr>a_prescriptionId := Some (p_id p)\<rparr> else x)
        (appointments s1)\<rparr>"
    using s2 by (simp add: Appointment_save_def split: if_splits)
  have "find (\<lambda>x. a_id x = a_id appt \<and> a_doctorId x = ?uid) (appointments s2) =
      Some (appt\<lparr>a_prescriptionId := Some (p_id p)\<rparr>)"
    unfolding s2_eq s1_eq using found(2,3) by (simp add: find_rewritten)
  then have again: "Appointment_findOne ev s2 ?aid ?uid =
      Inr (Some (appt\<lparr>a_prescriptionId := Some (p_id p)\<rparr>))"
    using found(1) by (simp add: Appointment_findOne_def cast_query_def)
  show ?thesis
    apply (rule exI [of _ appt], rule exI [of _ p])
    using appt p found(2) again by (simp add: res s2_eq s1_eq)
qed

text \<open>Doctor 1 prescribes for the appointment with the patient.\<close>

theorem createPrescription_created_witness:
  "status (snd (createPrescription clinic_env clinic_store
       (request_of doctor1 [(''appointmentId'', ''64b0000000000000000000b1'')] []
          (Some [(''diagnosis'', JStr ''otitis''), (''medications'', JArr [good_medication])])))) = 201 \<and>
   (\<exists>appt p.
     a_id appt = id_b1 \<and>
     prescriptions (fst (createPrescription clinic_env clinic_store
       (request_of doctor1 [(''appointmentId'', ''64b0000000000000000000b1'')] []
          (Some [(''diagnosis'', JStr ''otitis''), (''medications'', JArr [good_medication])])))) =
       prescriptions clinic_store @ [p] \<and>
     p_doctorId p = id_d1 \<and>
     p_patientId p = id_a1 \<and>
     Appointment_findOne clinic_env (fst (createPrescription clinic_env clinic_store
       (request_of doctor1 [(''appointmentId'', ''64b0000000000000000000b1'')] []
          (Some [(''diagnosis'', JStr ''otitis''), (''medications'', JArr [good_medication])]))))
        ''64b0000000000000000000b1'' id_d1 =
       Inr (Some (appt\<lparr>a_prescriptionId := Some (p_id p)\<rparr>)))"
proof -
  let ?req = "request_of doctor1 [(''appointmentId'', ''64b0000000000000000000b1'')] []
          (Some [(''diagnosis'', JStr ''otitis''), (''medications'', JArr [good_medication])])"
  have ok: "status (snd (createPrescription clinic_env clinic_store ?req)) = 201"
    by (simp add: createPrescription_def createPrescription_try_def Let_def request_of_def
        doctor1_def clinic_store_def truthy_str_def Appointment_findOne_def cast_query_def
        hex24_def forEach_medications_def good_medication_def missing_required_def
        Prescription_save_def Appointment_save_def clinic_env_def)
  have p: "map_of (params ?req) ''appointmentId'' = Some ''64b0000000000000000000b1''"
     "userId (req_user ?req) = id_d1"
    by (simp_all add: request_of_def doctor1_def)
  have a: "Appointment_findOne clinic_env clinic_store ''64b0000000000000000000b1'' id_d1 =
     Inr (Some \<lparr>a_id = id_b1, a_doctorId = id_d1, a_patientId = id_a1, a_prescriptionId = None,
          a_doc = [(''date'', JStr ''2024-05-01''), (''reason'', JStr ''cough'')]\<rparr>)"
    by (simp add: Appointment_findOne_def cast_query_def hex24_def clinic_store_def)
  from createPrescription_created [OF ok] obtain appt p where
    found: "Appointment_findOne clinic_env clinic_store ''64b0000000000000000000b1'' id_d1 =
       Inr (Some appt)"
    and added: "prescriptions (fst (createPrescription clinic_env clinic_store ?req)) =
       prescriptions clinic_store @ [p]"
    and fields: "p_doctorId p = id_d1" "p_patientId p = a_patientId appt"
    and again: "Appointment_findOne clinic_env (fst (createPrescription clinic_env clinic_store ?req))
        ''64b0000000000000000000b1'' id_d1 =
       Inr (Some (appt\<lparr>a_prescriptionId := Some (p_id p)\<rparr>))"
    unfolding p option.sel by blast
  from found a have "a_id appt = id_b1" "a_patientId appt = id_a1"
    by auto
  with ok added fields again show ?thesis
    by (intro conjI exI [of _ appt] exI [of _ p]) simp_all
qed

subsection \<open>Listings\<close>

lemma sort_date_desc_mset: "mset (sort_date_desc ps) = mset ps"
  by (simp add: sort_date_desc_def)

lemma sort_date_desc_sorted: "latest_first (sort_date_desc ps)"
proof -
  have "sorted (map (\<lambda>p. - p_date p) (sort_key (\<lambda>p. - p_date p) ps))"
    by (rule sorted_sort_key)
  then show ?thesis
    by (simp add: sort_date_desc_def latest_first_def sorted_map)
qed

text \<open>
  C9, as stated, fails for the doctor view: a patientId parameter that is present and
  empty does not restrict the listing. Doctor 1 asks with \<open>?patientId=\<close>; no
  prescription has the empty patientId, and both of the doctor's prescriptions are
  returned.
\<close>

theorem getDoctorPrescriptions_counterexample:
  "map_of (query (request_of doctor1 [] [(''patientId'', '''')] None)) ''patientId'' = Some '''' \<and>
   filter (\<lambda>p. p_doctorId p = userId doctor1 \<and> p_patientId p = ObjectId '''')
     (prescriptions clinic_store) = [] \<and>
   map p_id (listed (getDoctorPrescriptions clinic_env clinic_store
      (request_of doctor1 [] [(''patientId'', '''')] None))) = [id_f2, id_f1] \<and>
   reported_count (getDoctorPrescriptions clinic_env clinic_store
      (request_of doctor1 [] [(''patientId'', '''')] None)) = Some 2"
  by (simp add: request_of_def doctor1_def clinic_store_def getDoctorPrescriptions_def
      getDoctorPrescriptions_try_def Prescription_find_doctor_def Let_def
      truthy_str_def listed_def reported_count_def sort_date_desc_def comp_def)

text \<open>
  C9, amended. The patient listing returns exactly the prescriptions whose patientId is
  the requester's userId. The doctor listing, when the patientId query parameter is
  absent, empty, or the text of an object id, returns exactly the prescriptions whose
  doctorId is the requester's userId, further restricted to the given patientId when
  the parameter is present and not empty. Both are sorted by descending date and
  report a count equal to the number of returned records.
\<close>

theorem prescription_listings:
  "reported_count (getPatientPrescriptions ev s req) =
     Some (length (listed (getPatientPrescriptions ev s req))) \<and>
   mset (listed (getPatientPrescriptions ev s req)) =
     mset (filter (\<lambda>p. p_patientId p = userId (req_user req)) (prescriptions s)) \<and>
   latest_first (listed (getPatientPrescriptions ev s req)) \<and>
   ((case map_of (query req) ''patientId'' of
       None \<Rightarrow> True
     | Some v \<Rightarrow> v = [] \<or> castObjectId ev v \<noteq> None) \<longrightarrow>
    reported_count (getDoctorPrescriptions ev s req) =
      Some (length (listed (getDoctorPrescriptions ev s req))) \<and>
    mset (listed (getDoctorPrescriptions ev s req)) =
      mset (filter (\<lambda>p. p_doctorId p = userId (req_user req) \<and>
                        (case map_of (query req) ''patientId'' of
                           None \<Rightarrow> True
                         | Some v \<Rightarrow> v = [] \<or> castObjectId ev v = Some (p_patientId p)))
             (prescriptions s)) \<and>
    latest_first (listed (getDoctorPrescriptions ev s req)))"
proof -
  have patient: "reported_count (getPatientPrescriptions ev s req) =
       Some (length (listed (getPatientPrescriptions ev s req))) \<and>
     mset (listed (getPatientPrescriptions ev s req)) =
       mset (filter (\<lambda>p. p_patientId p = userId (req_user req)) (prescriptions s)) \<and>
     latest_first (listed (getPatientPrescriptions ev s req))"
    unfolding getPatientPrescriptions_def Let_def
    by (simp add: listed_def reported_count_def comp_def sort_date_desc_mset sort_date_desc_sorted)
  let ?q = "map_of (query req) ''patientId''"
  let ?want = "\<lambda>p. p_doctorId p = userId (req_user req) \<and>
                        (case ?q of None \<Rightarrow> True
                         | Some v \<Rightarrow> v = [] \<or> castObjectId ev v = Some (p_patientId p))"
  have doctor: "reported_count (getDoctorPrescriptions ev s req) =
      Some (length (listed (getDoctorPrescriptions ev s req))) \<and>
    mset (listed (getDoctorPrescriptions ev s req)) = mset (filter ?want (prescriptions s)) \<and>
    latest_first (listed (getDoctorPrescriptions ev s req))"
    if ok: "case ?q of None \<Rightarrow> True | Some v \<Rightarrow> v = [] \<or> castObjectId ev v \<noteq> None"
  proof -
    have "Prescription_find_doctor ev s (userId (req_user req))
            (if truthy_str ?q then ?q else None) = Inr (filter ?want (prescriptions s))"
    proof (cases ?q)
      case None
      then show ?thesis by (simp add: Prescription_find_doctor_def truthy_str_def)
    next
      case (Some v)
      show ?thesis
      proof (cases "v = []")
        case True
        with Some show ?thesis by (simp add: Prescription_find_doctor_def truthy_str_def)
      next
        case False
        with ok Some obtain i where i: "castObjectId ev v = Some i" by auto
        have "filter (\<lambda>p. p_doctorId p = userId (req_user req) \<and> p_patientId p = i)
                (prescriptions s) = filter ?want (prescriptions s)"
          by (rule filter_cong) (auto simp: Some False i)
        then show ?thesis
          by (simp add: Prescription_find_doctor_def truthy_str_def cast_query_def Some False i)
      qed
    qed
    then show ?thesis
      unfolding getDoctorPrescriptions_def getDoctorPrescriptions_try_def Let_def
      by (simp add: listed_def reported_count_def comp_def sort_date_desc_mset sort_date_desc_sorted)
  qed
  from patient doctor show ?thesis by blast
qed

text \<open>Doctor 1 lists the prescriptions written for patient a1: one record, sent with
  count 1. The patient's own listing is sorted.\<close>

theorem prescription_listings_witness:
  "map p_id (listed (getDoctorPrescriptions clinic_env clinic_store
      (request_of doctor1 [] [(''patientId'', ''64b0000000000000000000a1'')] None))) = [id_f1] \<and>
   reported_count (getDoctorPrescriptions clinic_env clinic_store
      (request_of doctor1 [] [(''patientId'', ''64b0000000000000000000a1'')] None)) = Some 1 \<and>
   latest_first (listed (getPatientPrescriptions clinic_env clinic_store
      (request_of patient1 [] [] None)))"
proof -
  let ?req = "request_of doctor1 [] [(''patientId'', ''64b0000000000000000000a1'')] None"
  let ?rd = "getDoctorPrescriptions clinic_env clinic_store ?req"
  have ids: "map p_id (listed ?rd) = [id_f1]"
    by (simp add: request_of_def doctor1_def clinic_store_def getDoctorPrescriptions_def
      getDoctorPrescriptions_try_def Prescription_find_doctor_def cast_query_def hex24_def Let_def
      truthy_str_def listed_def sort_date_desc_def comp_def)
  then have len: "length (listed ?rd) = 1"
    by (auto dest: arg_cong [where f = length])
  have q: "map_of (query ?req) ''patientId'' = Some ''64b0000000000000000000a1''"
    by (simp add: request_of_def)
  have "reported_count ?rd = Some (length (listed ?rd))"
    using prescription_listings [of clinic_env clinic_store ?req]
    unfolding q by (simp add: hex24_def)
  with ids len show ?thesis
    using prescription_listings [of clinic_env clinic_store "request_of patient1 [] [] None"]
    by simp
qed

subsection \<open>The single read\<close>

lemma map_of_select_only:
  "map_of (pf_doc (select_only names d)) k = (if k \<in> set names then map_of (pf_doc d) k else None)"
proof -
  have kept: "map_of (filter (\<lambda>kv. fst kv \<in> set names) kvs) k =
        (if k \<in> set names then map_of kvs k else None)" for kvs :: jobj
    by (induction kvs) auto
  show ?thesis by (simp add: select_only_def kept)
qed

text \<open>
  C10. getPrescription makes no ownership or role check: two requests with the same
  prescriptionId parameter get the identical response from the same store, whoever
  sends them and whatever else they carry. When the prescription exists the response
  is the populated record, and it carries the licenseNumber of the linked doctor
  document and the dateOfBirth of the linked patient document.
\<close>

theorem getPrescription_any_requester:
  assumes "map_of (params r1) ''prescriptionId'' = map_of (params r2) ''prescriptionId''"
  shows "getPrescription ev s r1 = getPrescription ev s r2 \<and>
    (Prescription_findById ev s (map_of (params r1) ''prescriptionId'') = Inr (Some p) \<longrightarrow>
       (\<exists>pp. getPrescription ev s r2 = \<lparr>status = 200, body = OnePrescription pp\<rparr> \<and>
          pp_doc pp = p \<and>
          (\<forall>d. find (\<lambda>d. pf_id d = p_doctorId p) (doctors s) = Some d \<longrightarrow>
             (\<exists>d'. pp_doctorId pp = Populated (Some d') \<and>
                map_of (pf_doc d') ''licenseNumber'' = map_of (pf_doc d) ''licenseNumber'')) \<and>
          (\<forall>d. find (\<lambda>d. pf_id d = p_patientId p) (patients s) = Some d \<longrightarrow>
             (\<exists>d'. pp_patientId pp = Populated (Some d') \<and>
                map_of (pf_doc d') ''dateOfBirth'' = map_of (pf_doc d) ''dateOfBirth''))))"
  using assms
  by (auto simp: getPrescription_def getPrescription_try_def Let_def populate_def map_of_select_only)

text \<open>Doctor 2 reads a prescription that doctor 1 wrote for patient a1, and gets what
  the patient gets, licence number and date of birth included.\<close>

theorem getPrescription_any_requester_witness:
  "getPrescription clinic_env clinic_store
      (request_of doctor2 [(''prescriptionId'', ''64b0000000000000000000f1'')] [] None) =
   getPrescription clinic_env clinic_store
      (request_of patient1 [(''prescriptionId'', ''64b0000000000000000000f1'')] [] None) \<and>
   (\<exists>pp d e. getPrescription clinic_env clinic_store
        (request_of doctor2 [(''prescriptionId'', ''64b0000000000000000000f1'')] [] None) =
        \<lparr>status = 200, body = OnePrescription pp\<rparr> \<and>
      p_id (pp_doc pp) = id_f1 \<and>
      pp_doctorId pp = Populated (Some d) \<and>
      map_of (pf_doc d) ''licenseNumber'' = Some (JStr ''L-77'') \<and>
      pp_patientId pp = Populated (Some e) \<and>
      map_of (pf_doc e) ''dateOfBirth'' = Some (JStr ''1990-01-01''))"
  using getPrescription_any_requester
    [where ?r1.0 = "request_of patient1 [(''prescriptionId'', ''64b0000000000000000000f1'')] [] None"
       and ?r2.0 = "request_of doctor2 [(''prescriptionId'', ''64b0000000000000000000f1'')] [] None"
       and s = clinic_store and p = "hd (prescriptions clinic_store)" and ev = clinic_env]
  by (auto simp: request_of_def clinic_store_def Prescription_findById_def cast_query_def hex24_def)

section \<open>Properties of the doctor profile controller\<close>

text \<open>
  C6. A create-doctor-profile request of a user for whom the store holds a Doctor
  document with the same userId is answered 409, and the store is returned as it was:
  no document is created and the existing one is unchanged.
\<close>

theorem createDoctorProfile_duplicate:
  assumes "\<exists>d \<in> set (doctors s). map_of (pf_doc d) ''userId'' = Some (JId (userId (req_user req)))"
  shows "createDoctorProfile ev s req =
     (s, \<lparr>status = 409, body = Msg ''Doctor profile already exists''\<rparr>)"
proof -
  have "Doctor_findOne s (userId (req_user req)) \<noteq> None"
    using assms by (auto simp: Doctor_findOne_def find_None_iff)
  then show ?thesis
    by (simp add: createDoctorProfile_def createDoctorProfile_try_def Let_def)
qed

theorem createDoctorProfile_duplicate_witness:
  "createDoctorProfile clinic_env clinic_store
      (request_of doctor1 [] []
         (Some [(''specialization'', JStr ''ENT''), (''qualifications'', JStr ''MD'')])) =
     (clinic_store, \<lparr>status = 409, body = Msg ''Doctor profile already exists''\<rparr>)"
  using createDoctorProfile_duplicate
    [of clinic_store
        "request_of doctor1 [] []
           (Some [(''specialization'', JStr ''ENT''), (''qualifications'', JStr ''MD'')])"
        clinic_env]
  by (simp add: request_of_def doctor1_def clinic_store_def)

text \<open>
  C7. An update-doctor-profile request with an empty body (none, or an object without
  fields) and without an uploaded file is answered 400, and the store is returned as
  it was: neither the upload nor the update is attempted.
\<close>

theorem updateDoctorProfile_empty:
  assumes "req_body req = None \<or> req_body req = Some []" and "req_file req = None"
  shows "updateDoctorProfile ev s req = (s, \<lparr>status = 400, body = Msg ''No updates provided''\<rparr>)"
  using assms by (auto simp: updateDoctorProfile_def updateDoctorProfile_try_def Let_def)

theorem updateDoctorProfile_empty_witness:
  "updateDoctorProfile clinic_env clinic_store (request_of doctor1 [] [] (Some [])) =
     (clinic_store, \<lparr>status = 400, body = Msg ''No updates provided''\<rparr>)"
  using updateDoctorProfile_empty [of "request_of doctor1 [] [] (Some [])" clinic_env clinic_store]
  by (simp add: request_of_def)

text \<open>
  C8. For a get-doctors-by-clinic request with a well-formed clinicId (the text of an
  object id \<open>i\<close>): when no Doctor document has that clinicId the answer is 404 with a
  suggestions field, so never a 200 with an empty list; when some have, the answer is
  200 with a count equal to the number of matching documents, which are the ones
  listed.
\<close>

theorem getDoctorsByClinic_matches:
  assumes "map_of (params req) ''clinicId'' = Some c" and "castObjectId ev c = Some i"
  shows "isValid ev (Text c) \<and>
         (filter (\<lambda>d. map_of (pf_doc d) ''clinicId'' = Some (JId i)) (doctors s) = [] \<longrightarrow>
            getDoctorsByClinic ev s req =
              \<lparr>status = 404,
               body = MsgSuggestions ''No doctors found for this clinic''
                        ''Check if the clinic ID is correct''\<rparr>) \<and>
         (filter (\<lambda>d. map_of (pf_doc d) ''clinicId'' = Some (JId i)) (doctors s) \<noteq> [] \<longrightarrow>
            (\<exists>ds. getDoctorsByClinic ev s req =
                \<lparr>status = 200,
                 body = CountDoctors
                   (length (filter (\<lambda>d. map_of (pf_doc d) ''clinicId'' = Some (JId i)) (doctors s))) ds\<rparr> \<and>
              map (\<lambda>x. pf_id (fst x)) ds =
                map pf_id (filter (\<lambda>d. map_of (pf_doc d) ''clinicId'' = Some (JId i)) (doctors s)))) \<and>
         getDoctorsByClinic ev s req \<noteq> \<lparr>status = 200, body = CountDoctors 0 []\<rparr>"
  using assms
  by (simp add: getDoctorsByClinic_def getDoctorsByClinic_try_def Doctor_find_clinic_def
      cast_query_def Let_def select_without_def comp_def)

text \<open>Clinic c1 has two doctors; clinic c9 is well-formed and has none.\<close>

theorem getDoctorsByClinic_matches_witness:
  "getDoctorsByClinic clinic_env clinic_store
      (request_of patient1 [(''clinicId'', ''64b0000000000000000000c9'')] [] None) =
     \<lparr>status = 404,
      body = MsgSuggestions ''No doctors found for this clinic''
               ''Check if the clinic ID is correct''\<rparr> \<and>
   (\<exists>ds. getDoctorsByClinic clinic_env clinic_store
        (request_of patient1 [(''clinicId'', ''64b0000000000000000000c1'')] [] None) =
        \<lparr>status = 200, body = CountDoctors 2 ds\<rparr> \<and>
      map (\<lambda>x. pf_id (fst x)) ds = [id_d1, id_d2])"
proof -
  have valid: "castObjectId clinic_env ''64b0000000000000000000c9'' =
        Some (ObjectId ''64b0000000000000000000c9'')"
      "castObjectId clinic_env ''64b0000000000000000000c1'' = Some id_c1"
    by (simp_all add: hex24_def)
  have c9: "map_of (params (request_of patient1 [(''clinicId'', ''64b0000000000000000000c9'')] [] None))
      ''clinicId'' = Some ''64b0000000000000000000c9''"
    and c1: "map_of (params (request_of patient1 [(''clinicId'', ''64b0000000000000000000c1'')] [] None))
      ''clinicId'' = Some ''64b0000000000000000000c1''"
    by (simp_all add: request_of_def)
  have none: "filter (\<lambda>d. map_of (pf_doc d) ''clinicId'' = Some (JId (ObjectId ''64b0000000000000000000c9'')))
      (doctors clinic_store) = []"
    by (simp add: clinic_store_def)
  have two: "map pf_id (filter (\<lambda>d. map_of (pf_doc d) ''clinicId'' = Some (JId id_c1))
      (doctors clinic_store)) = [id_d1, id_d2]"
    by (simp add: clinic_store_def)
  from two have more: "filter (\<lambda>d. map_of (pf_doc d) ''clinicId'' = Some (JId id_c1))
      (doctors clinic_store) \<noteq> []"
    and len: "length (filter (\<lambda>d. map_of (pf_doc d) ''clinicId'' = Some (JId id_c1))
      (doctors clinic_store)) = 2"
    by (auto dest: arg_cong [where f = length])
  show ?thesis
    using getDoctorsByClinic_matches [OF c9 valid(1), of clinic_store]
      getDoctorsByClinic_matches [OF c1 valid(2), of clinic_store]
    unfolding two len
    using none more by simp
qed

section \<open>Properties of the authentication middleware\<close>

text \<open>
  C5, as stated, fails: a token that the token service rejects is answered 403, not
  401. The token \<open>tok-old\<close> has expired.
\<close>

theorem authenticate_rejected_token_counterexample:
  "verifyAccessToken clinic_env ''tok-old'' = Inl (Error ''jwt expired'') \<and>
   authenticate clinic_env clinic_store [(''authorization'', ''Bearer tok-old'')] =
     Respond \<lparr>status = 403, body = Msg ''Invalid or expired token''\<rparr>"
  by (simp add: authenticate_def bearer_token_def truthy_str_def clinic_env_def)

lemma role_profile_fields: "role_profile s (u\<lparr>u_doc := x\<rparr>) = role_profile s u"
  by (simp add: role_profile_def)

lemma role_profile_owner:
  "role_profile s u = Some pr \<Longrightarrow> map_of (pf_doc pr) ''userId'' = Some (JId (u_id u))"
  by (auto simp: role_profile_def profile_owner_def find_Some_iff split: if_splits)

lemma map_of_without:
  "map_of (filter (\<lambda>kv. fst kv \<notin> ks) kvs) k = (if k \<in> ks then None else map_of kvs k)"
  by (induction kvs) auto

text \<open>
  C5, amended. The middleware answers 401 when the header carries no token, 403 when
  the token service rejects the token (invalid or expired), 404 when no user has the
  id of the token or when the profile of the user's role is absent; otherwise it hands
  on an identity with the userId, the identifier of the user's profile as profileId,
  the role, and the user's fields except password and refresh token.
\<close>

theorem authenticate_outcomes:
  "(\<not> truthy_str (bearer_token (map_of hs ''authorization'')) \<longrightarrow>
      authenticate ev s hs = Respond \<lparr>status = 401, body = Msg ''Authentication required''\<rparr>) \<and>
   (bearer_token (map_of hs ''authorization'') = Some t \<and> t \<noteq> [] \<longrightarrow>
      (verifyAccessToken ev t = Inl e \<longrightarrow>
         authenticate ev s hs = Respond \<lparr>status = 403, body = Msg ''Invalid or expired token''\<rparr>) \<and>
      (verifyAccessToken ev t = Inr uid \<longrightarrow>
         (\<not> (\<exists>u \<in> set (users s). u_id u = uid) \<longrightarrow>
            authenticate ev s hs = Respond \<lparr>status = 404, body = Msg ''User not found''\<rparr>) \<and>
         (find (\<lambda>u. u_id u = uid) (users s) = Some u \<longrightarrow>
            (role_profile s u = None \<longrightarrow>
               authenticate ev s hs = Respond \<lparr>status = 404, body = Msg ''Profile not found''\<rparr>) \<and>
            (role_profile s u = Some pr \<longrightarrow>
               (\<exists>ident. authenticate ev s hs = Next ident \<and>
                  userId ident = uid \<and> profileId ident = pf_id pr \<and> role ident = u_role u \<and>
                  map_of (pf_doc pr) ''userId'' = Some (JId uid) \<and>
                  u_id (i_user ident) = uid \<and> u_role (i_user ident) = u_role u \<and>
                  map_of (u_doc (i_user ident)) =
                    (map_of (u_doc u)) |` (- {''password'', ''refreshToken''}))))))"
proof -
  have absent: "User_findById s uid = None" if "\<not> (\<exists>u \<in> set (users s). u_id u = uid)"
    using that by (auto simp: User_findById_def find_None_iff)
  have present: "User_findById s uid =
      Some (u\<lparr>u_doc := filter (\<lambda>kv. fst kv \<notin> {''password'', ''refreshToken''}) (u_doc u)\<rparr>) \<and>
      u_id u = uid"
    if "find (\<lambda>u. u_id u = uid) (users s) = Some u"
    using that by (auto simp: User_findById_def find_Some_iff)
  have "map_of (filter (\<lambda>kv. fst kv \<notin> {''password'', ''refreshToken''}) (u_doc u)) =
      (map_of (u_doc u)) |` (- {''password'', ''refreshToken''})"
    unfolding map_of_without restrict_map_def by auto
  then have kept: "map_of (filter (\<lambda>kv. fst kv \<noteq> ''password'' \<and> fst kv \<noteq> ''refreshToken'') (u_doc u)) =
      (map_of (u_doc u)) |` (- {''password'', ''refreshToken''})"
    by simp
  show ?thesis
    using absent present role_profile_owner [of s u pr]
    by (auto simp: authenticate_def Let_def truthy_str_def role_profile_fields kept)
qed

text \<open>One request for each outcome: no header, an expired token, the token of a
  deleted user, the token of a doctor without profile, the token of doctor 1.\<close>

theorem authenticate_outcomes_witness:
  "authenticate clinic_env clinic_store [] =
     Respond \<lparr>status = 401, body = Msg ''Authentication required''\<rparr> \<and>
   authenticate clinic_env clinic_store [(''authorization'', ''Bearer tok-old'')] =
     Respond \<lparr>status = 403, body = Msg ''Invalid or expired token''\<rparr> \<and>
   authenticate clinic_env clinic_store [(''authorization'', ''Bearer tok-gone'')] =
     Respond \<lparr>status = 404, body = Msg ''User not found''\<rparr> \<and>
   authenticate clinic_env clinic_store [(''authorization'', ''Bearer tok-d4'')] =
     Respond \<lparr>status = 404, body = Msg ''Profile not found''\<rparr> \<and>
   (\<exists>ident. authenticate clinic_env clinic_store [(''authorization'', ''Bearer tok-d1'')] = Next ident \<and>
      userId ident = id_d1 \<and> profileId ident = id_d1 \<and> role ident = ''doctor'' \<and>
      map_of (u_doc (i_user ident)) ''email'' = Some (JStr ''d1@clinic'') \<and>
      map_of (u_doc (i_user ident)) ''password'' = None)"
  using authenticate_outcomes [where hs = "[]" and ev = clinic_env and s = clinic_store]
    authenticate_outcomes
      [where hs = "[(''authorization'', ''Bearer tok-old'')]" and t = "''tok-old''"
         and ev = clinic_env and e = "Error ''jwt expired''" and s = clinic_store]
    authenticate_outcomes
      [where hs = "[(''authorization'', ''Bearer tok-gone'')]" and t = "''tok-gone''"
         and ev = clinic_env and s = clinic_store and uid = "ObjectId ''64b0000000000000000000ff''"]
    authenticate_outcomes
      [where hs = "[(''authorization'', ''Bearer tok-d4'')]" and t = "''tok-d4''"
         and ev = clinic_env and s = clinic_store and uid = id_d4
         and u = "\<lparr>u_id = id_d4, u_role = ''doctor'', u_doc = [(''email'', JStr ''d4@clinic'')]\<rparr>"]
    authenticate_outcomes
      [where hs = "[(''authorization'', ''Bearer tok-d1'')]" and t = "''tok-d1''"
         and ev = clinic_env and s = clinic_store and uid = id_d1
         and u = "hd (users clinic_store)" and pr = "hd (doctors clinic_store)"]
  by (auto simp: bearer_token_def truthy_str_def clinic_env_def clinic_store_def
      role_profile_def profile_owner_def)

end
